theory Spec2Isabelle
  imports Main "HOL-Library.AList"
begin

section \<open>Values and documents\<close>

text \<open>
  The server keeps three collections of schema-less documents in a document store and
  answers HTTP requests whose bodies are JSON objects. A value is what \<open>JSON.parse\<close> can
  produce, extended by the store's object identifiers (\<open>ObjectId\<close>, twelve bytes, here
  the natural number its 24 hexadecimal digits denote). Numbers are integers: the handlers
  only test a number for truthiness and compare it for equality. The JavaScript value
  \<open>undefined\<close> (an absent property) is \<open>None\<close> of an option.

  An object is an association list read with \<open>map_of\<close>; the order of its fields carries
  no meaning here.
\<close>

datatype jsval =
    JNull
  | JBool bool
  | JNum int
  | JStr string
  | JOid nat
  | JArr "jsval list"
  | JObj "(string \<times> jsval) list"

type_synonym doc = "(string \<times> jsval) list"

type_synonym collection = "doc list"

text \<open>JavaScript truthiness, as in \<open>if (phoneNumber)\<close>.\<close>

fun truthy :: "jsval \<Rightarrow> bool" where
  "truthy JNull = False"
| "truthy (JBool b) = b"
| "truthy (JNum n) = (n \<noteq> 0)"
| "truthy (JStr s) = (s \<noteq> [])"
| "truthy (JOid i) = True"
| "truthy (JArr xs) = True"
| "truthy (JObj kvs) = True"

definition truthy_prop :: "jsval option \<Rightarrow> bool" where
  "truthy_prop p = (case p of None \<Rightarrow> False | Some v \<Rightarrow> truthy v)"

section \<open>The document store\<close>

text \<open>
  The driver and the store are not part of the repository. The operations the handlers
  call are modelled on a collection held as a list in natural (insertion) order, for the
  fragment the handlers use: a filter \<open>{k: q}\<close> on one field, an update
  \<open>{$set: fields}\<close> of top-level fields, the option \<open>{upsert: true}\<close>. The store is
  taken to be reachable; the errors modelled are the ones an operation raises because of
  its arguments. The driver sends \<open>undefined\<close> in a filter as \<open>null\<close>.

  A filter value that is an object with a \<open>$\<close>-key is a query operator for the store,
  not a value to compare with: the equality match below is the store's answer for every other
  value. The handlers that take the requester's email from the body or the query string
  get the store's answer to an operator from the environment of the request (see
  \<open>find_requester\<close>); \<open>PUT /users\<close>, whose filter is the email of the body, is
  stated for valid users, whose email is a string. A \<open>$set\<close> key with a dot addresses
  a nested field and is outside this fragment.
\<close>

datatype error = BSONError | ImmutableField | DuplicateKey | InvalidId | BadValue

definition query_value :: "jsval option \<Rightarrow> jsval" where
  "query_value p = (case p of None \<Rightarrow> JNull | Some v \<Rightarrow> v)"

text \<open>
  Equality match of a filter value against a stored field: an absent field matches
  \<open>null\<close>, and an array field matches when it equals the value or contains it.
\<close>

fun eq_match :: "jsval \<Rightarrow> jsval option \<Rightarrow> bool" where
  "eq_match q None = (q = JNull)"
| "eq_match q (Some (JArr xs)) = (q = JArr xs \<or> q \<in> set xs)"
| "eq_match q (Some v) = (q = v)"

definition matches :: "string \<Rightarrow> jsval \<Rightarrow> doc \<Rightarrow> bool" where
  "matches k q d = eq_match q (map_of d k)"

definition findOne :: "string \<Rightarrow> jsval \<Rightarrow> collection \<Rightarrow> doc option" where
  "findOne k q c = List.find (matches k q) c"

fun replace_first :: "(doc \<Rightarrow> bool) \<Rightarrow> doc \<Rightarrow> collection \<Rightarrow> collection" where
  "replace_first P d' [] = []"
| "replace_first P d' (d # ds) = (if P d then d' # ds else d # replace_first P d' ds)"

fun remove_first :: "(doc \<Rightarrow> bool) \<Rightarrow> collection \<Rightarrow> collection" where
  "remove_first P [] = []"
| "remove_first P (d # ds) = (if P d then ds else d # remove_first P ds)"

definition id_taken :: "jsval \<Rightarrow> collection \<Rightarrow> bool" where
  "id_taken i c = list_ex (\<lambda>d. map_of d ''_id'' = Some i) c"

definition is_array :: "jsval \<Rightarrow> bool" where
  "is_array v = (case v of JArr xs \<Rightarrow> True | _ \<Rightarrow> False)"

text \<open>
  Storing a new document whose \<open>_id\<close> is settled: the store refuses an array as
  \<open>_id\<close> and an \<open>_id\<close> already in the collection (the unique index on \<open>_id\<close>).
\<close>

definition store_new :: "jsval \<Rightarrow> doc \<Rightarrow> collection \<Rightarrow> error + collection" where
  "store_new i d c =
     (if is_array i then Inl InvalidId
      else if id_taken i c then Inl DuplicateKey
      else Inr (c @ [d]))"

text \<open>
  \<open>insertOne(doc)\<close>: the driver gives a document without \<open>_id\<close> (absent or
  \<open>null\<close>) a freshly generated one, \<open>fresh\<close>, the identifier the generator yields
  for this request. The result is the acknowledgement, reduced to \<open>insertedId\<close>.
\<close>

definition insertOne :: "nat \<Rightarrow> doc \<Rightarrow> collection \<Rightarrow> error + (jsval \<times> collection)" where
  "insertOne fresh d c =
     (let d' = (case query_value (map_of d ''_id'') of
                  JNull \<Rightarrow> AList.update ''_id'' (JOid fresh) d
                | _ \<Rightarrow> d);
          i = query_value (map_of d' ''_id'')
      in case store_new i d' c of
           Inl e \<Rightarrow> Inl e
         | Inr c' \<Rightarrow> Inr (i, c'))"

record update_result =
  matchedCount :: nat
  modifiedCount :: nat
  upsertedCount :: nat

text \<open>\<open>$set\<close> changes nothing when every field it names already has the value.\<close>

definition unchanged_by :: "doc \<Rightarrow> doc \<Rightarrow> bool" where
  "unchanged_by d upd = list_all (\<lambda>k. map_of d k = map_of upd k) (map fst upd)"

text \<open>
  \<open>updateOne({k: q}, {$set: fields}, {upsert: true})\<close>. With a match, the first
  matching document gets the fields (an \<open>_id\<close> that would change is refused);
  \<open>modifiedCount\<close> is 1 only when the document changed. With no match, a new document
  is built from the filter's field and the \<open>$set\<close> fields, gets the identifier
  \<open>fresh\<close> from the store when it has no \<open>_id\<close>, and is inserted. An empty
  \<open>$set\<close> is accepted (the client declares the stable API, version 1).
\<close>

definition updateOne ::
  "nat \<Rightarrow> string \<Rightarrow> jsval \<Rightarrow> doc \<Rightarrow> collection \<Rightarrow> error + (update_result \<times> collection)" where
  "updateOne fresh k q upd c =
     (case findOne k q c of
        Some d \<Rightarrow>
          (let d' = AList.merge d upd in
           if map_of d' ''_id'' \<noteq> map_of d ''_id'' then Inl ImmutableField
           else Inr (\<lparr>matchedCount = 1,
                      modifiedCount = (if unchanged_by d upd then 0 else 1),
                      upsertedCount = 0\<rparr>,
                     replace_first (matches k q) d' c))
      | None \<Rightarrow>
          (let n = AList.merge [(k, q)] upd;
               n' = (case map_of n ''_id'' of
                       None \<Rightarrow> (''_id'', JOid fresh) # n
                     | Some i \<Rightarrow> n);
               i = query_value (map_of n' ''_id'')
           in case store_new i n' c of
                Inl e \<Rightarrow> Inl e
              | Inr c' \<Rightarrow>
                  Inr (\<lparr>matchedCount = 0, modifiedCount = 0, upsertedCount = 1\<rparr>, c')))"

text \<open>\<open>deleteOne({k: q})\<close> removes the first matching document; the result is
  \<open>deletedCount\<close>.\<close>

definition deleteOne :: "string \<Rightarrow> jsval \<Rightarrow> collection \<Rightarrow> nat \<times> collection" where
  "deleteOne k q c =
     (case findOne k q c of
        None \<Rightarrow> (0, c)
      | Some d \<Rightarrow> (1, remove_first (matches k q) c))"

text \<open>
  What a request meets and the handler does not decide:
  \<^item> \<open>generated\<close>, the identifier the generator yields when it is asked for one;
  \<^item> \<open>of_number\<close> and \<open>of_string12\<close>, what \<open>new ObjectId\<close> makes of a number and of
    a string of twelve characters (\<open>None\<close>: it raises). The versions of the driver
    differ on both, and the repository pins none;
  \<^item> \<open>operator_answer\<close>, what the store answers to the lookup of the requester when the
    email in the filter is an operator object: the document it selects, none, or an error
    (an operator it does not know).
  A handler makes one call of each kind at most, so one value of each is enough.
\<close>

record environment =
  generated :: nat
  of_number :: "nat option"
  of_string12 :: "nat option"
  operator_answer :: "error + doc option"

text \<open>
  \<open>new ObjectId(inputId)\<close>. An object with an \<open>id\<close> property stands for that property,
  which must be a string (the binary forms do not come out of \<open>JSON.parse\<close>, nor does a
  \<open>toHexString\<close> function). Then: for \<open>undefined\<close> and \<open>null\<close> an identifier is
  generated; a string of 24 hexadecimal digits denotes one; a number and a string of
  length 12 are for the driver's version to decide; an identifier is copied (a body
  parsed from JSON holds none); everything else raises.
\<close>

definition hex_digit :: "char \<Rightarrow> nat option" where
  "hex_digit c =
     (let n = (of_char c :: nat) in
      if 48 \<le> n \<and> n \<le> 57 then Some (n - 48)
      else if 97 \<le> n \<and> n \<le> 102 then Some (n - 87)
      else if 65 \<le> n \<and> n \<le> 70 then Some (n - 55)
      else None)"

fun hex_value :: "nat \<Rightarrow> string \<Rightarrow> nat option" where
  "hex_value acc [] = Some acc"
| "hex_value acc (c # cs) =
     (case hex_digit c of None \<Rightarrow> None | Some h \<Rightarrow> hex_value (16 * acc + h) cs)"

definition workingId :: "jsval option \<Rightarrow> error + jsval option" where
  "workingId inputId =
     (case inputId of
        Some (JObj kvs) \<Rightarrow>
          (case map_of kvs ''id'' of
             None \<Rightarrow> Inr inputId
           | Some (JStr s) \<Rightarrow> Inr (Some (JStr s))
           | Some v \<Rightarrow> Inl BSONError)
      | _ \<Rightarrow> Inr inputId)"

definition by_version :: "nat option \<Rightarrow> error + nat" where
  "by_version r = (case r of None \<Rightarrow> Inl BSONError | Some i \<Rightarrow> Inr i)"

definition ObjectId :: "environment \<Rightarrow> jsval option \<Rightarrow> error + nat" where
  "ObjectId env inputId =
     (case workingId inputId of
        Inl e \<Rightarrow> Inl e
      | Inr None \<Rightarrow> Inr (generated env)
      | Inr (Some JNull) \<Rightarrow> Inr (generated env)
      | Inr (Some (JNum n)) \<Rightarrow> by_version (of_number env)
      | Inr (Some (JStr s)) \<Rightarrow>
          (if length s = 24 then
             (case hex_value 0 s of None \<Rightarrow> Inl BSONError | Some i \<Rightarrow> Inr i)
           else if length s = 12 then by_version (of_string12 env)
           else Inl BSONError)
      | Inr (Some (JOid i)) \<Rightarrow> Inr i
      | Inr (Some v) \<Rightarrow> Inl BSONError)"

text \<open>
  The lookup of the requester, \<open>usersCollection.findOne({email: v})\<close>, for an email
  \<open>v\<close> taken from the body or the query string, where it can be any value. An object
  with a key that starts with \<open>$\<close> is an operator for the store, whose answer is the
  environment's; every other value is matched for equality. An error of the store is
  raised in the handler.
\<close>

definition operator_object :: "jsval \<Rightarrow> bool" where
  "operator_object q =
     (case q of
        JObj kvs \<Rightarrow> list_ex (\<lambda>k. k \<noteq> [] \<and> hd k = CHR ''$'') (map fst kvs)
      | _ \<Rightarrow> False)"

definition find_requester ::
  "environment \<Rightarrow> jsval option \<Rightarrow> collection \<Rightarrow> error + doc option" where
  "find_requester env v c =
     (if operator_object (query_value v) then operator_answer env
      else Inr (findOne ''email'' (query_value v) c))"

section \<open>Requests, responses and the handlers\<close>

record database =
  usersCollection :: collection
  testimonialCollection :: collection
  proposalsCollection :: collection

datatype payload =
    Message string
  | ErrorText string
  | Admin bool
  | PhoneNumber jsval
  | Documents collection
  | Updated update_result
  | Inserted jsval

record response =
  status :: nat
  json :: payload

definition internal_error :: response where
  "internal_error = \<lparr>status = 500, json = Message ''Internal server error''\<rparr>"

text \<open>The role check every protected handler repeats: \<open>user?.role === "admin"\<close>.\<close>

definition isAdmin :: "doc option \<Rightarrow> bool" where
  "isAdmin user =
     (case user of None \<Rightarrow> False | Some u \<Rightarrow> map_of u ''role'' = Some (JStr ''admin''))"

text \<open>\<open>POST /users\<close>: insert the body as a new user.\<close>

definition post_users :: "nat \<Rightarrow> doc \<Rightarrow> database \<Rightarrow> response \<times> database" where
  "post_users fresh user db =
     (case insertOne fresh user (usersCollection db) of
        Inl e \<Rightarrow> (internal_error, db)
      | Inr (i, c) \<Rightarrow> (\<lparr>status = 200, json = Inserted i\<rparr>, db\<lparr>usersCollection := c\<rparr>))"

text \<open>\<open>PUT /users\<close>: update the user with the body's email, or insert it.\<close>

definition put_users :: "nat \<Rightarrow> doc \<Rightarrow> database \<Rightarrow> response \<times> database" where
  "put_users fresh user db =
     (case updateOne fresh ''email'' (query_value (map_of user ''email'')) user
             (usersCollection db) of
        Inl e \<Rightarrow> (internal_error, db)
      | Inr (r, c) \<Rightarrow> (\<lparr>status = 200, json = Updated r\<rparr>, db\<lparr>usersCollection := c\<rparr>))"

text \<open>\<open>GET /users/:email\<close>: the admin flag of the user with this email.\<close>

definition get_users_email :: "string \<Rightarrow> database \<Rightarrow> response" where
  "get_users_email email db =
     (let user = findOne ''email'' (JStr email) (usersCollection db)
      in \<lparr>status = 200, json = Admin (isAdmin user)\<rparr>)"

text \<open>\<open>GET /users/phone/:email\<close>: the phone number of the user with this email.\<close>

definition get_users_phone_email :: "string \<Rightarrow> database \<Rightarrow> response" where
  "get_users_phone_email email db =
     (case findOne ''email'' (JStr email) (usersCollection db) of
        None \<Rightarrow> \<lparr>status = 404, json = Message ''User not found''\<rparr>
      | Some user \<Rightarrow>
          (if truthy_prop (map_of user ''phoneNumber'')
           then \<lparr>status = 200, json = PhoneNumber (query_value (map_of user ''phoneNumber''))\<rparr>
           else \<lparr>status = 404, json = Message ''User does not have a phone number''\<rparr>))"

text \<open>
  \<open>POST /users/:email\<close>: update the profile. Only the truthy ones of
  \<open>displayName\<close>, \<open>phoneNumber\<close>, \<open>country\<close> enter \<open>updateFields\<close>.
\<close>

definition field_if_truthy :: "doc \<Rightarrow> string \<Rightarrow> doc" where
  "field_if_truthy body k =
     (case map_of body k of
        None \<Rightarrow> []
      | Some v \<Rightarrow> if truthy v then [(k, v)] else [])"

definition updateFields :: "doc \<Rightarrow> doc" where
  "updateFields body =
     field_if_truthy body ''displayName'' @ field_if_truthy body ''phoneNumber''
       @ field_if_truthy body ''country''"

definition post_users_email :: "nat \<Rightarrow> string \<Rightarrow> doc \<Rightarrow> database \<Rightarrow> response \<times> database" where
  "post_users_email fresh email body db =
     (case updateOne fresh ''email'' (JStr email) (updateFields body) (usersCollection db) of
        Inl e \<Rightarrow> (internal_error, db)
      | Inr (r, c) \<Rightarrow>
          (if modifiedCount r > 0 \<or> upsertedCount r > 0
           then (\<lparr>status = 200, json = Message ''User updated successfully''\<rparr>,
                 db\<lparr>usersCollection := c\<rparr>)
           else (\<lparr>status = 200, json = Message ''No changes made to the user''\<rparr>,
                 db\<lparr>usersCollection := c\<rparr>)))"


text \<open>\<open>PUT /testimonialapprove\<close> with body \<open>{id, user_email}\<close>: approve a
  testimonial, for an admin.\<close>

definition put_testimonialapprove ::
  "environment \<Rightarrow> doc \<Rightarrow> database \<Rightarrow> response \<times> database" where
  "put_testimonialapprove env body db =
     (let id = map_of body ''id'';
          user_email = map_of body ''user_email''
      in case find_requester env user_email (usersCollection db) of
           Inl e \<Rightarrow> (internal_error, db)
         | Inr user \<Rightarrow>
             if isAdmin user then
               (case ObjectId env id of
                  Inl e \<Rightarrow> (internal_error, db)
                | Inr oid \<Rightarrow>
                    (case updateOne (generated env) ''_id'' (JOid oid)
                            [(''approved'', JBool True)] (testimonialCollection db) of
                       Inl e \<Rightarrow> (internal_error, db)
                     | Inr (r, c) \<Rightarrow>
                         (if upsertedCount r = 1 \<or> modifiedCount r = 1
                          then (\<lparr>status = 200, json = Documents c\<rparr>,
                                db\<lparr>testimonialCollection := c\<rparr>)
                          else (\<lparr>status = 404, json = ErrorText ''Testimonial not found.''\<rparr>,
                                db\<lparr>testimonialCollection := c\<rparr>))))
             else (\<lparr>status = 403, json = ErrorText ''Forbidden''\<rparr>, db))"



section \<open>Valid users and a sample database\<close>

text \<open>
  The source declares a user schema with a string \<open>email\<close> (the schema is never
  applied by the server). A user document sent to \<open>PUT /users\<close> is valid here when its
  \<open>email\<close> is a string and its field names are plain top-level names, the fragment of
  \<open>$set\<close> that is modelled.
\<close>

definition plain_key :: "string \<Rightarrow> bool" where
  "plain_key k = (k \<noteq> [] \<and> hd k \<noteq> CHR ''$'' \<and> CHR ''.'' \<notin> set k)"

definition valid_user :: "doc \<Rightarrow> bool" where
  "valid_user user =
     ((case map_of user ''email'' of Some (JStr e) \<Rightarrow> True | _ \<Rightarrow> False)
      \<and> list_all plain_key (map fst user))"

text \<open>Emails identify users: at most one stored document matches the email.\<close>

definition email_unique :: "string \<Rightarrow> collection \<Rightarrow> bool" where
  "email_unique e c = (length (filter (matches ''email'' (JStr e)) c) \<le> 1)"

text \<open>
  A database used for the concrete instances below: an admin, a user whose phone number
  is the empty string, a user with a phone number and another role; one approved and one
  pending testimonial.
\<close>

definition site_db :: database where
  "site_db =
     \<lparr>usersCollection =
        [[(''_id'', JOid 1), (''name'', JStr ''Root''), (''email'', JStr ''root@site.io''),
          (''role'', JStr ''admin'')],
         [(''_id'', JOid 2), (''name'', JStr ''Ann''), (''email'', JStr ''ann@site.io''),
          (''phoneNumber'', JStr [])],
         [(''_id'', JOid 3), (''name'', JStr ''Bob''), (''email'', JStr ''bob@site.io''),
          (''phoneNumber'', JStr ''555-0100''), (''role'', JStr ''editor'')]],
      testimonialCollection =
        [[(''_id'', JOid 10), (''text'', JStr ''fine work''), (''approved'', JBool True)],
         [(''_id'', JOid 11), (''text'', JStr ''prompt'')]],
      proposalsCollection = []\<rparr>"

text \<open>
  An environment for the instances: the generator yields 7, the driver generates 8 for a
  number and refuses a string of twelve characters. The requests of the instances send
  plain emails, so the answer to an operator lookup, set to an error, is never asked for.
\<close>

definition site_env :: environment where
  "site_env =
     \<lparr>generated = 7, of_number = Some 8, of_string12 = None, operator_answer = Inl BadValue\<rparr>"

section \<open>Facts about the store\<close>

lemma replace_first_same:
  "List.find P c = Some d \<Longrightarrow> replace_first P d c = c"
  by (induction c) (auto split: if_splits)

lemma find_replace_first:
  "List.find P c = Some d \<Longrightarrow> P d' \<Longrightarrow> List.find P (replace_first P d' c) = Some d'"
  by (induction c) (auto split: if_splits)

lemma find_append_new:
  "List.find P c = None \<Longrightarrow> P d \<Longrightarrow> List.find P (c @ [d]) = Some d"
  by (induction c) (auto split: if_splits)

text \<open>An identifier that is taken is found by the filter on \<open>_id\<close>.\<close>

lemma id_taken_found:
  assumes "id_taken (JOid oid) c"
  shows "findOne ''_id'' (JOid oid) c \<noteq> None"
proof -
  from assms obtain d where d: "d \<in> set c" "map_of d ''_id'' = Some (JOid oid)"
    by (auto simp: id_taken_def list_ex_iff)
  then have "matches ''_id'' (JOid oid) d" by (simp add: matches_def)
  with d(1) show ?thesis by (auto simp: findOne_def find_None_iff)
qed

text \<open>The approving update on an identifier that matches nothing inserts a document.\<close>

lemma upsert_by_id:
  assumes "findOne ''_id'' (JOid oid) c = None"
  shows "updateOne fresh ''_id'' (JOid oid) [(''approved'', JBool True)] c =
           Inr (\<lparr>matchedCount = 0, modifiedCount = 0, upsertedCount = 1\<rparr>,
                c @ [[(''_id'', JOid oid), (''approved'', JBool True)]])"
proof -
  have "\<not> id_taken (JOid oid) c" using assms id_taken_found by blast
  then show ?thesis using assms
    by (simp add: updateOne_def store_new_def is_array_def query_value_def Let_def)
qed

text \<open>The approving update on a matched document that is not yet approved modifies it.\<close>

lemma update_approved_modifies:
  assumes "findOne ''_id'' (JOid oid) c = Some d"
    and "map_of d ''approved'' \<noteq> Some (JBool True)"
  shows "\<exists>c'. updateOne fresh ''_id'' (JOid oid) [(''approved'', JBool True)] c =
           Inr (\<lparr>matchedCount = 1, modifiedCount = 1, upsertedCount = 0\<rparr>, c')"
  using assms by (simp add: updateOne_def unchanged_by_def AList.update_conv')

lemma updateOne_match_result:
  assumes "findOne k q c = Some d"
    and "updateOne fresh k q upd c = Inr (r, c')"
  shows "c' = replace_first (matches k q) (AList.merge d upd) c"
  using assms by (simp add: updateOne_def Let_def split: if_splits)

lemma with_id_fields:
  "f \<noteq> ''_id'' \<Longrightarrow>
     map_of (case map_of n ''_id'' of None \<Rightarrow> (''_id'', x) # n | Some i \<Rightarrow> n) f = map_of n f"
  by (simp split: option.splits)

lemma updateOne_upsert_result:
  assumes "findOne k q c = None"
    and "updateOne fresh k q upd c = Inr (r, c')"
  shows "\<exists>n. c' = c @ [n] \<and>
           (\<forall>f. f \<noteq> ''_id'' \<longrightarrow> map_of n f = (map_of [(k, q)] ++ map_of upd) f)"
proof -
  let ?n = "AList.merge [(k, q)] upd"
  let ?n' = "case map_of ?n ''_id'' of None \<Rightarrow> (''_id'', JOid fresh) # ?n | Some i \<Rightarrow> ?n"
  have c': "c' = c @ [?n']"
    using assms by (simp add: updateOne_def Let_def store_new_def split: if_splits)
  have "\<forall>f. f \<noteq> ''_id'' \<longrightarrow> map_of ?n' f = (map_of [(k, q)] ++ map_of upd) f"
  proof (intro allI impI)
    fix f :: string
    assume "f \<noteq> ''_id''"
    then have "map_of ?n' f = map_of ?n f" by (rule with_id_fields)
    also have "\<dots> = (map_of [(k, q)] ++ map_of upd) f" by (simp only: AList.merge_conv')
    finally show "map_of ?n' f = (map_of [(k, q)] ++ map_of upd) f" .
  qed
  with c' show ?thesis by blast
qed

text \<open>The definitions unfolded to evaluate a handler on the sample database.\<close>

lemmas eval_defs =
  site_db_def site_env_def findOne_def matches_def query_value_def isAdmin_def ObjectId_def
  workingId_def by_version_def operator_object_def find_requester_def hex_digit_def
  updateOne_def unchanged_by_def deleteOne_def insertOne_def store_new_def id_taken_def
  is_array_def Let_def

section \<open>The claims\<close>

subsection \<open>C1: approving as an admin and the 404 branch\<close>

text \<open>
  C1 says that an approve request (\<open>PUT /testimonialapprove\<close>) by an admin never gets 404,
  the branch being unreachable because the update runs with upsert. The code reaches it:
  when the \<open>id\<close> denotes a stored testimonial that already has \<open>approved: true\<close>, the
  update matches, modifies nothing and upserts nothing, and the handler answers 404.
  Here the admin approves testimonial 10 of the sample database, which is approved already.
\<close>

theorem approve_again_counterexample:
  "find_requester site_env
       (map_of [(''id'', JStr ''00000000000000000000000a''),
                (''user_email'', JStr ''root@site.io'')] ''user_email'')
       (usersCollection site_db) =
     Inr (Some [(''_id'', JOid 1), (''name'', JStr ''Root''), (''email'', JStr ''root@site.io''),
                (''role'', JStr ''admin'')])
   \<and> isAdmin (Some [(''_id'', JOid 1), (''name'', JStr ''Root''),
                     (''email'', JStr ''root@site.io''), (''role'', JStr ''admin'')])
   \<and> put_testimonialapprove site_env
        [(''id'', JStr ''00000000000000000000000a''), (''user_email'', JStr ''root@site.io'')]
        site_db =
       (\<lparr>status = 404, json = ErrorText ''Testimonial not found.''\<rparr>, site_db)"
  by (simp add: put_testimonialapprove_def eval_defs)

text \<open>
  C1, amended: for an approve request by an admin, the handler does not answer 404 unless
  the \<open>id\<close> denotes, through \<open>new ObjectId(id)\<close>, a stored testimonial whose
  \<open>approved\<close> field is already \<open>true\<close>. (An \<open>id\<close> that matches nothing is upserted,
  a matched testimonial that is not yet approved is modified, and an \<open>id\<close> the constructor
  refuses gives 500.)
\<close>

theorem approve_not_404_unless_approved:
  assumes "find_requester env (map_of body ''user_email'') (usersCollection db) = Inr user"
    and "isAdmin user"
    and "\<And>oid d. ObjectId env (map_of body ''id'') = Inr oid \<Longrightarrow>
           findOne ''_id'' (JOid oid) (testimonialCollection db) = Some d \<Longrightarrow>
           map_of d ''approved'' \<noteq> Some (JBool True)"
  shows "status (fst (put_testimonialapprove env body db)) \<noteq> 404"
proof (cases "ObjectId env (map_of body ''id'')")
  case (Inl e)
  with assms(1,2) show ?thesis
    by (simp add: put_testimonialapprove_def internal_error_def)
next
  case (Inr oid)
  show ?thesis
  proof (cases "findOne ''_id'' (JOid oid) (testimonialCollection db)")
    case None
    with assms(1,2) Inr show ?thesis
      by (simp add: put_testimonialapprove_def upsert_by_id)
  next
    case (Some d)
    from assms(3) [OF Inr Some] have "map_of d ''approved'' \<noteq> Some (JBool True)" .
    from update_approved_modifies [OF Some this] obtain c' where
      "updateOne (generated env) ''_id'' (JOid oid) [(''approved'', JBool True)]
         (testimonialCollection db) =
       Inr (\<lparr>matchedCount = 1, modifiedCount = 1, upsertedCount = 0\<rparr>, c')"
      by blast
    with assms(1,2) Inr show ?thesis by (simp add: put_testimonialapprove_def)
  qed
qed

text \<open>An instance of C1 as amended: the admin approves the pending testimonial 11.\<close>

theorem approve_not_404_unless_approved_witness:
  "find_requester site_env
       (map_of [(''id'', JStr ''00000000000000000000000b''),
                (''user_email'', JStr ''root@site.io'')] ''user_email'')
       (usersCollection site_db) =
     Inr (Some [(''_id'', JOid 1), (''name'', JStr ''Root''), (''email'', JStr ''root@site.io''),
                (''role'', JStr ''admin'')])
   \<and> isAdmin (Some [(''_id'', JOid 1), (''name'', JStr ''Root''),
                     (''email'', JStr ''root@site.io''), (''role'', JStr ''admin'')])
   \<and> ObjectId site_env (map_of [(''id'', JStr ''00000000000000000000000b''),
                                (''user_email'', JStr ''root@site.io'')] ''id'') = Inr 11
   \<and> findOne ''_id'' (JOid 11) (testimonialCollection site_db) =
        Some [(''_id'', JOid 11), (''text'', JStr ''prompt'')]
   \<and> map_of [(''_id'', JOid 11), (''text'', JStr ''prompt'')] ''approved'' \<noteq> Some (JBool True)
   \<and> status (fst (put_testimonialapprove site_env
        [(''id'', JStr ''00000000000000000000000b''), (''user_email'', JStr ''root@site.io'')]
        site_db)) \<noteq> 404"
proof -
  let ?body = "[(''id'', JStr ''00000000000000000000000b''), (''user_email'', JStr ''root@site.io'')]"
  let ?root = "[(''_id'', JOid 1), (''name'', JStr ''Root''), (''email'', JStr ''root@site.io''),
                (''role'', JStr ''admin'')]"
  have a: "find_requester site_env (map_of ?body ''user_email'') (usersCollection site_db) =
             Inr (Some ?root)"
    by (simp add: eval_defs)
  have a': "isAdmin (Some ?root)" by (simp add: isAdmin_def)
  have b: "ObjectId site_env (map_of ?body ''id'') = Inr 11"
    by (simp add: eval_defs)
  have c: "findOne ''_id'' (JOid 11) (testimonialCollection site_db) =
             Some [(''_id'', JOid 11), (''text'', JStr ''prompt'')]"
    by (simp add: eval_defs)
  have d: "\<And>oid d. ObjectId site_env (map_of ?body ''id'') = Inr oid \<Longrightarrow>
             findOne ''_id'' (JOid oid) (testimonialCollection site_db) = Some d \<Longrightarrow>
             map_of d ''approved'' \<noteq> Some (JBool True)"
    using b c by auto
  have "status (fst (put_testimonialapprove site_env ?body site_db)) \<noteq> 404"
    using a a' d by (rule approve_not_404_unless_approved)
  with a a' b c show ?thesis by simp
qed

subsection \<open>C2: approving an id that matches no testimonial\<close>

text \<open>
  C2 says that every approve request by an admin whose \<open>id\<close> matches no testimonial
  inserts a new approved document and answers 200 with the full list. For the \<open>id\<close>
  \<open>"zzz"\<close>, which no stored document has, \<open>new ObjectId(id)\<close> raises inside the
  handler's \<open>try\<close>: the answer is 500 and nothing is inserted.
\<close>

theorem approve_malformed_id_counterexample:
  "find_requester site_env
       (map_of [(''id'', JStr ''zzz''), (''user_email'', JStr ''root@site.io'')] ''user_email'')
       (usersCollection site_db) =
     Inr (Some [(''_id'', JOid 1), (''name'', JStr ''Root''), (''email'', JStr ''root@site.io''),
                (''role'', JStr ''admin'')])
   \<and> isAdmin (Some [(''_id'', JOid 1), (''name'', JStr ''Root''),
                     (''email'', JStr ''root@site.io''), (''role'', JStr ''admin'')])
   \<and> list_all (\<lambda>t. map_of t ''_id'' \<noteq> Some (JStr ''zzz'')) (testimonialCollection site_db)
   \<and> put_testimonialapprove site_env
        [(''id'', JStr ''zzz''), (''user_email'', JStr ''root@site.io'')] site_db =
       (\<lparr>status = 500, json = Message ''Internal server error''\<rparr>, site_db)"
  by (simp add: put_testimonialapprove_def internal_error_def eval_defs)

text \<open>
  C2, amended: for every approve request by an admin whose \<open>id\<close> the \<open>ObjectId\<close>
  constructor accepts (a string of 24 hexadecimal digits, an object whose \<open>id\<close> is such
  a string, an absent or \<open>null\<close> \<open>id\<close>, for which one is generated, and what the
  driver's version accepts besides) and which matches no testimonial, the document
  \<open>{_id: ObjectId(id), approved: true}\<close> is inserted, the status is 200 and the body is
  the full testimonial list, the new document included.
\<close>

theorem approve_unknown_id_upserts:
  assumes "find_requester env (map_of body ''user_email'') (usersCollection db) = Inr user"
    and "isAdmin user"
    and "ObjectId env (map_of body ''id'') = Inr oid"
    and "findOne ''_id'' (JOid oid) (testimonialCollection db) = None"
  shows "put_testimonialapprove env body db =
           (\<lparr>status = 200,
             json = Documents (testimonialCollection db
                                @ [[(''_id'', JOid oid), (''approved'', JBool True)]])\<rparr>,
            db\<lparr>testimonialCollection :=
                 testimonialCollection db @ [[(''_id'', JOid oid), (''approved'', JBool True)]]\<rparr>)"
  using assms by (simp add: put_testimonialapprove_def upsert_by_id)

text \<open>
  An instance of C2 as amended: the admin approves the unknown identifier 12, sent as an
  object with an \<open>id\<close> property.
\<close>

theorem approve_unknown_id_upserts_witness:
  "find_requester site_env
       (map_of [(''id'', JObj [(''id'', JStr ''00000000000000000000000c'')]),
                (''user_email'', JStr ''root@site.io'')] ''user_email'')
       (usersCollection site_db) =
     Inr (Some [(''_id'', JOid 1), (''name'', JStr ''Root''), (''email'', JStr ''root@site.io''),
                (''role'', JStr ''admin'')])
   \<and> isAdmin (Some [(''_id'', JOid 1), (''name'', JStr ''Root''),
                     (''email'', JStr ''root@site.io''), (''role'', JStr ''admin'')])
   \<and> ObjectId site_env (map_of [(''id'', JObj [(''id'', JStr ''00000000000000000000000c'')]),
                                (''user_email'', JStr ''root@site.io'')] ''id'') = Inr 12
   \<and> findOne ''_id'' (JOid 12) (testimonialCollection site_db) = None
   \<and> put_testimonialapprove site_env
        [(''id'', JObj [(''id'', JStr ''00000000000000000000000c'')]),
         (''user_email'', JStr ''root@site.io'')]
        site_db =
       (\<lparr>status = 200,
         json = Documents (testimonialCollection site_db
                            @ [[(''_id'', JOid 12), (''approved'', JBool True)]])\<rparr>,
        site_db\<lparr>testimonialCollection :=
             testimonialCollection site_db @ [[(''_id'', JOid 12), (''approved'', JBool True)]]\<rparr>)"
proof -
  let ?body = "[(''id'', JObj [(''id'', JStr ''00000000000000000000000c'')]),
                (''user_email'', JStr ''root@site.io'')]"
  let ?root = "[(''_id'', JOid 1), (''name'', JStr ''Root''), (''email'', JStr ''root@site.io''),
                (''role'', JStr ''admin'')]"
  have a: "find_requester site_env (map_of ?body ''user_email'') (usersCollection site_db) =
             Inr (Some ?root)"
    by (simp add: eval_defs)
  have a': "isAdmin (Some ?root)" by (simp add: isAdmin_def)
  have b: "ObjectId site_env (map_of ?body ''id'') = Inr 12"
    by (simp add: eval_defs)
  have c: "findOne ''_id'' (JOid 12) (testimonialCollection site_db) = None"
    by (simp add: eval_defs)
  note r = approve_unknown_id_upserts [OF a a' b c]
  show ?thesis by (intro conjI a a' b c r)
qed

subsection \<open>C3: updating a profile with an empty body\<close>

text \<open>
  C3 says that a profile update (\<open>POST /users/:email\<close>) whose body has none of
  \<open>displayName\<close>, \<open>phoneNumber\<close>, \<open>country\<close> leaves the users collection unchanged
  and reports \<open>No changes made to the user\<close>, for every email, also one without a user
  document. For an email without a document the update, which runs with upsert and an empty
  \<open>$set\<close>, inserts the document \<open>{_id, email}\<close>; \<open>upsertedCount\<close> is 1 and the
  handler reports \<open>User updated successfully\<close>.
\<close>

theorem updateProfile_empty_body_counterexample:
  "findOne ''email'' (JStr ''eve@site.io'') (usersCollection site_db) = None
   \<and> post_users_email 7 ''eve@site.io'' [] site_db =
       (\<lparr>status = 200, json = Message ''User updated successfully''\<rparr>,
        site_db\<lparr>usersCollection := usersCollection site_db
                  @ [[(''_id'', JOid 7), (''email'', JStr ''eve@site.io'')]]\<rparr>)"
  by (simp add: post_users_email_def updateFields_def field_if_truthy_def eval_defs)

text \<open>
  C3, amended: for every profile update whose body has none of \<open>displayName\<close>,
  \<open>phoneNumber\<close>, \<open>country\<close> and whose email matches a stored user document, the
  database is left unchanged and the response is 200 with
  \<open>No changes made to the user\<close>.
\<close>

theorem updateProfile_empty_body_existing_user:
  assumes "map_of body ''displayName'' = None"
    and "map_of body ''phoneNumber'' = None"
    and "map_of body ''country'' = None"
    and "findOne ''email'' (JStr email) (usersCollection db) = Some user"
  shows "post_users_email fresh email body db =
           (\<lparr>status = 200, json = Message ''No changes made to the user''\<rparr>, db)"
proof -
  have "updateFields body = []"
    using assms(1-3) by (simp add: updateFields_def field_if_truthy_def)
  moreover have "replace_first (matches ''email'' (JStr email)) user (usersCollection db)
                   = usersCollection db"
    using assms(4) by (simp add: findOne_def replace_first_same)
  ultimately show ?thesis using assms(4)
    by (simp add: post_users_email_def updateOne_def unchanged_by_def)
qed

text \<open>An instance of C3 as amended: an empty update of the stored user Ann.\<close>

theorem updateProfile_empty_body_existing_user_witness:
  "map_of [] ''displayName'' = (None :: jsval option)
   \<and> map_of [] ''phoneNumber'' = (None :: jsval option)
   \<and> map_of [] ''country'' = (None :: jsval option)
   \<and> findOne ''email'' (JStr ''ann@site.io'') (usersCollection site_db) =
        Some [(''_id'', JOid 2), (''name'', JStr ''Ann''), (''email'', JStr ''ann@site.io''),
              (''phoneNumber'', JStr [])]
   \<and> post_users_email 7 ''ann@site.io'' [] site_db =
       (\<lparr>status = 200, json = Message ''No changes made to the user''\<rparr>, site_db)"
proof -
  have f: "findOne ''email'' (JStr ''ann@site.io'') (usersCollection site_db) =
        Some [(''_id'', JOid 2), (''name'', JStr ''Ann''), (''email'', JStr ''ann@site.io''),
              (''phoneNumber'', JStr [])]"
    by (simp add: eval_defs)
  have "post_users_email 7 ''ann@site.io'' [] site_db =
       (\<lparr>status = 200, json = Message ''No changes made to the user''\<rparr>, site_db)"
    by (rule updateProfile_empty_body_existing_user [OF _ _ _ f]) simp_all
  with f show ?thesis by simp
qed

subsection \<open>C4: the admin flag after an upsert\<close>

text \<open>
  C4 says that, for every valid user document \<open>u\<close>, an upsert (\<open>PUT /users\<close>) followed
  by \<open>GET /users/:email\<close> yields \<open>{admin: b}\<close> with \<open>b\<close> true exactly when
  \<open>u.role\<close> is \<open>"admin"\<close>, emails being unique. The upsert is a \<open>$set\<close>: a field
  absent from \<open>u\<close> stays as stored. Sent without a \<open>role\<close> for the stored admin, the
  document leaves the role in place and the flag stays true.
\<close>

theorem upsert_without_role_counterexample:
  "valid_user [(''name'', JStr ''Root''), (''email'', JStr ''root@site.io'')]
   \<and> email_unique ''root@site.io'' (usersCollection site_db)
   \<and> map_of [(''name'', JStr ''Root''), (''email'', JStr ''root@site.io'')] ''role'' = None
   \<and> status (fst (put_users 7 [(''name'', JStr ''Root''), (''email'', JStr ''root@site.io'')]
                     site_db)) = 200
   \<and> get_users_email ''root@site.io''
        (snd (put_users 7 [(''name'', JStr ''Root''), (''email'', JStr ''root@site.io'')] site_db))
       = \<lparr>status = 200, json = Admin True\<rparr>"
  by (simp add: valid_user_def plain_key_def email_unique_def put_users_def get_users_email_def
      eval_defs)

text \<open>
  C4, amended: for every valid user document \<open>u\<close> with email \<open>e\<close>, emails being
  unique, a successful upsert followed by \<open>GET /users/e\<close> yields \<open>{admin: b}\<close> where,
  when \<open>u\<close> has a \<open>role\<close> field, \<open>b\<close> is true exactly when \<open>u.role\<close> is
  \<open>"admin"\<close>, and, when \<open>u\<close> has no \<open>role\<close> field, \<open>b\<close> is the admin flag the
  email had before the upsert (false when no document was stored for it).
\<close>

theorem upsert_then_admin_flag:
  assumes "valid_user user"
    and "map_of user ''email'' = Some (JStr e)"
    and "email_unique e (usersCollection db)"
    and "put_users fresh user db = (res, db')"
    and "status res = 200"
  shows "get_users_email e db' =
           \<lparr>status = 200,
             json = Admin (case map_of user ''role'' of
                             Some v \<Rightarrow> v = JStr ''admin''
                           | None \<Rightarrow> isAdmin (findOne ''email'' (JStr e) (usersCollection db)))\<rparr>"
proof -
  let ?c = "usersCollection db"
  from assms(2,4,5) obtain r c' where
    upd: "updateOne fresh ''email'' (JStr e) user ?c = Inr (r, c')"
    and db': "db' = db\<lparr>usersCollection := c'\<rparr>"
    by (auto simp: put_users_def query_value_def internal_error_def split: sum.splits)
  have stored: "\<exists>u. findOne ''email'' (JStr e) c' = Some u \<and>
          map_of u ''role'' = (case map_of user ''role'' of
                                 Some v \<Rightarrow> Some v
                               | None \<Rightarrow> (case findOne ''email'' (JStr e) ?c of
                                            None \<Rightarrow> None
                                          | Some d \<Rightarrow> map_of d ''role''))"
  proof (cases "findOne ''email'' (JStr e) ?c")
    case (Some d)
    let ?d' = "AList.merge d user"
    have c': "c' = replace_first (matches ''email'' (JStr e)) ?d' ?c"
      using updateOne_match_result [OF Some upd] .
    have "matches ''email'' (JStr e) ?d'"
      using assms(2) by (simp add: matches_def AList.merge_conv')
    with Some have "findOne ''email'' (JStr e) c' = Some ?d'"
      unfolding c' findOne_def by (rule find_replace_first)
    moreover have "map_of ?d' ''role'' =
        (case map_of user ''role'' of Some v \<Rightarrow> Some v | None \<Rightarrow> map_of d ''role'')"
      by (simp add: AList.merge_conv' map_add_def)
    ultimately show ?thesis using Some by (simp split: option.splits)
  next
    case None
    from updateOne_upsert_result [OF None upd] obtain n where
      n: "c' = ?c @ [n]"
        "\<forall>f. f \<noteq> ''_id'' \<longrightarrow> map_of n f = (map_of [(''email'', JStr e)] ++ map_of user) f"
      by blast
    from n(2) assms(2) have "map_of n ''email'' = Some (JStr e)" by simp
    then have "matches ''email'' (JStr e) n" by (simp add: matches_def)
    with None have "findOne ''email'' (JStr e) c' = Some n"
      unfolding n(1) findOne_def by (rule find_append_new)
    moreover from n(2) have "map_of n ''role'' =
        (case map_of user ''role'' of Some v \<Rightarrow> Some v | None \<Rightarrow> None)"
      by (simp add: map_add_def split: option.splits)
    ultimately show ?thesis using None by (simp split: option.splits)
  qed
  then show ?thesis
    by (auto simp: get_users_email_def db' isAdmin_def split: option.splits)
qed

text \<open>
  An instance of C4 as amended: the stored user Bob, an editor, is sent with the role
  \<open>"admin"\<close>.
\<close>

theorem upsert_then_admin_flag_witness:
  "valid_user [(''name'', JStr ''Bob''), (''email'', JStr ''bob@site.io''), (''role'', JStr ''admin'')]
   \<and> map_of [(''name'', JStr ''Bob''), (''email'', JStr ''bob@site.io''), (''role'', JStr ''admin'')]
        ''email'' = Some (JStr ''bob@site.io'')
   \<and> email_unique ''bob@site.io'' (usersCollection site_db)
   \<and> status (fst (put_users 7
        [(''name'', JStr ''Bob''), (''email'', JStr ''bob@site.io''), (''role'', JStr ''admin'')]
        site_db)) = 200
   \<and> get_users_email ''bob@site.io'' (snd (put_users 7
        [(''name'', JStr ''Bob''), (''email'', JStr ''bob@site.io''), (''role'', JStr ''admin'')]
        site_db)) = \<lparr>status = 200, json = Admin True\<rparr>"
proof -
  let ?u = "[(''name'', JStr ''Bob''), (''email'', JStr ''bob@site.io''), (''role'', JStr ''admin'')]"
  have v: "valid_user ?u" by (simp add: valid_user_def plain_key_def)
  have m: "map_of ?u ''email'' = Some (JStr ''bob@site.io'')" by simp
  have u: "email_unique ''bob@site.io'' (usersCollection site_db)"
    by (simp add: email_unique_def eval_defs)
  have p: "put_users 7 ?u site_db = (fst (put_users 7 ?u site_db), snd (put_users 7 ?u site_db))"
    by simp
  have s: "status (fst (put_users 7 ?u site_db)) = 200"
    by (simp add: put_users_def eval_defs)
  from upsert_then_admin_flag [OF v m u p s] v m u s show ?thesis by simp
qed

subsection \<open>C5: the admin gate\<close>



subsection \<open>C6: the admin flag of an unknown email\<close>

text \<open>
  C6: for every email that matches no user document, \<open>GET /users/:email\<close> answers 200
  with \<open>{admin: false}\<close>, not 404 and not an error.
\<close>

theorem getAdminFlag_unknown_email:
  assumes "findOne ''email'' (JStr email) (usersCollection db) = None"
  shows "get_users_email email db = \<lparr>status = 200, json = Admin False\<rparr>"
  using assms by (simp add: get_users_email_def isAdmin_def)

text \<open>An instance of C6: an email the sample database does not hold.\<close>

theorem getAdminFlag_unknown_email_witness:
  "findOne ''email'' (JStr ''eve@site.io'') (usersCollection site_db) = None
   \<and> get_users_email ''eve@site.io'' site_db = \<lparr>status = 200, json = Admin False\<rparr>"
proof -
  have none: "findOne ''email'' (JStr ''eve@site.io'') (usersCollection site_db) = None"
    by (simp add: eval_defs)
  from getAdminFlag_unknown_email [OF none] none show ?thesis by simp
qed

subsection \<open>C7: deleting an id that matches no testimonial\<close>




subsection \<open>C8: the three answers of the phone lookup\<close>

text \<open>
  C8: \<open>GET /users/phone/:email\<close> tells its two failures apart. For an email without a
  user document it answers 404 with \<open>User not found\<close>; for a user document without a
  phone number, 404 with the different message \<open>User does not have a phone number\<close>;
  for a user document with a phone number, 200 with \<open>{phoneNumber}\<close>. A phone number is
  a value the handler takes as present, a truthy one (such as a non-empty string); C10 is
  about the field that is stored but falsy.
\<close>

theorem getPhone_cases:
  "(findOne ''email'' (JStr email) (usersCollection db) = None \<longrightarrow>
      get_users_phone_email email db = \<lparr>status = 404, json = Message ''User not found''\<rparr>)
   \<and> (findOne ''email'' (JStr email) (usersCollection db) = Some user
        \<and> map_of user ''phoneNumber'' = None \<longrightarrow>
      get_users_phone_email email db =
        \<lparr>status = 404, json = Message ''User does not have a phone number''\<rparr>)
   \<and> (findOne ''email'' (JStr email) (usersCollection db) = Some user
        \<and> map_of user ''phoneNumber'' = Some v \<and> truthy v \<longrightarrow>
      get_users_phone_email email db = \<lparr>status = 200, json = PhoneNumber v\<rparr>)
   \<and> Message ''User not found'' \<noteq> Message ''User does not have a phone number''"
  by (simp add: get_users_phone_email_def truthy_prop_def query_value_def)

text \<open>
  An instance of C8: an unknown email, the admin (stored without a phone number) and Bob
  (stored with one).
\<close>

theorem getPhone_cases_witness:
  "findOne ''email'' (JStr ''eve@site.io'') (usersCollection site_db) = None
   \<and> get_users_phone_email ''eve@site.io'' site_db =
       \<lparr>status = 404, json = Message ''User not found''\<rparr>
   \<and> findOne ''email'' (JStr ''root@site.io'') (usersCollection site_db) =
       Some [(''_id'', JOid 1), (''name'', JStr ''Root''), (''email'', JStr ''root@site.io''),
             (''role'', JStr ''admin'')]
   \<and> map_of [(''_id'', JOid 1), (''name'', JStr ''Root''), (''email'', JStr ''root@site.io''),
             (''role'', JStr ''admin'')] ''phoneNumber'' = None
   \<and> get_users_phone_email ''root@site.io'' site_db =
       \<lparr>status = 404, json = Message ''User does not have a phone number''\<rparr>
   \<and> findOne ''email'' (JStr ''bob@site.io'') (usersCollection site_db) =
       Some [(''_id'', JOid 3), (''name'', JStr ''Bob''), (''email'', JStr ''bob@site.io''),
             (''phoneNumber'', JStr ''555-0100''), (''role'', JStr ''editor'')]
   \<and> map_of [(''_id'', JOid 3), (''name'', JStr ''Bob''), (''email'', JStr ''bob@site.io''),
             (''phoneNumber'', JStr ''555-0100''), (''role'', JStr ''editor'')] ''phoneNumber''
       = Some (JStr ''555-0100'')
   \<and> truthy (JStr ''555-0100'')
   \<and> get_users_phone_email ''bob@site.io'' site_db =
       \<lparr>status = 200, json = PhoneNumber (JStr ''555-0100'')\<rparr>"
proof -
  let ?root = "[(''_id'', JOid 1), (''name'', JStr ''Root''), (''email'', JStr ''root@site.io''),
                (''role'', JStr ''admin'')]"
  let ?bob = "[(''_id'', JOid 3), (''name'', JStr ''Bob''), (''email'', JStr ''bob@site.io''),
               (''phoneNumber'', JStr ''555-0100''), (''role'', JStr ''editor'')]"
  have e: "findOne ''email'' (JStr ''eve@site.io'') (usersCollection site_db) = None"
    by (simp add: eval_defs)
  have r: "findOne ''email'' (JStr ''root@site.io'') (usersCollection site_db) = Some ?root"
    by (simp add: eval_defs)
  have rp: "map_of ?root ''phoneNumber'' = None" by simp
  have b: "findOne ''email'' (JStr ''bob@site.io'') (usersCollection site_db) = Some ?bob"
    by (simp add: eval_defs)
  have bp: "map_of ?bob ''phoneNumber'' = Some (JStr ''555-0100'')" by simp
  have t: "truthy (JStr ''555-0100'')" by simp
  from e r rp b bp t
    getPhone_cases [of "''eve@site.io''" site_db]
    getPhone_cases [of "''root@site.io''" site_db ?root]
    getPhone_cases [of "''bob@site.io''" site_db ?bob "JStr ''555-0100''"]
  show ?thesis by simp
qed

subsection \<open>C9: nobody guards the role field\<close>

text \<open>
  C9: no check stands before the insert of a user, so a caller can make itself an admin.
  \<open>POST /users\<close> with the body \<open>{email: e, role: "admin"}\<close> takes no requester; when
  no stored document matches \<open>e\<close> (and the generated identifier is new), it stores the
  body as sent, with the generated \<open>_id\<close>, and a following \<open>GET /users/e\<close> answers
  \<open>{admin: true}\<close>.
\<close>

theorem self_granted_admin:
  assumes "findOne ''email'' (JStr e) (usersCollection db) = None"
    and "\<not> id_taken (JOid fresh) (usersCollection db)"
  shows "post_users fresh [(''email'', JStr e), (''role'', JStr ''admin'')] db =
           (\<lparr>status = 200, json = Inserted (JOid fresh)\<rparr>,
            db\<lparr>usersCollection := usersCollection db
                  @ [[(''email'', JStr e), (''role'', JStr ''admin''), (''_id'', JOid fresh)]]\<rparr>)
         \<and> get_users_email e
              (snd (post_users fresh [(''email'', JStr e), (''role'', JStr ''admin'')] db)) =
             \<lparr>status = 200, json = Admin True\<rparr>"
proof -
  let ?new = "[(''email'', JStr e), (''role'', JStr ''admin''), (''_id'', JOid fresh)]"
  have ins: "insertOne fresh [(''email'', JStr e), (''role'', JStr ''admin'')]
               (usersCollection db) =
             Inr (JOid fresh, usersCollection db @ [?new])"
    using assms(2)
    by (simp add: insertOne_def query_value_def store_new_def is_array_def Let_def)
  have "matches ''email'' (JStr e) ?new" by (simp add: matches_def)
  with assms(1) have "findOne ''email'' (JStr e) (usersCollection db @ [?new]) = Some ?new"
    unfolding findOne_def by (rule find_append_new)
  with ins show ?thesis
    by (simp add: post_users_def get_users_email_def isAdmin_def)
qed

text \<open>An instance of C9: a new email on the sample database.\<close>

theorem self_granted_admin_witness:
  "findOne ''email'' (JStr ''eve@site.io'') (usersCollection site_db) = None
   \<and> \<not> id_taken (JOid 7) (usersCollection site_db)
   \<and> post_users 7 [(''email'', JStr ''eve@site.io''), (''role'', JStr ''admin'')] site_db =
       (\<lparr>status = 200, json = Inserted (JOid 7)\<rparr>,
        site_db\<lparr>usersCollection := usersCollection site_db
              @ [[(''email'', JStr ''eve@site.io''), (''role'', JStr ''admin''), (''_id'', JOid 7)]]\<rparr>)
   \<and> get_users_email ''eve@site.io''
        (snd (post_users 7 [(''email'', JStr ''eve@site.io''), (''role'', JStr ''admin'')] site_db))
       = \<lparr>status = 200, json = Admin True\<rparr>"
proof -
  have a: "findOne ''email'' (JStr ''eve@site.io'') (usersCollection site_db) = None"
    by (simp add: eval_defs)
  have b: "\<not> id_taken (JOid 7) (usersCollection site_db)"
    by (simp add: eval_defs)
  note r = self_granted_admin [OF a b]
  show ?thesis by (intro conjI a b r [THEN conjunct1] r [THEN conjunct2])
qed

subsection \<open>C10: a stored but falsy phone number\<close>

text \<open>
  C10: the phone lookup decides by truthiness, not by the presence of the field. For
  every user document that exists and whose \<open>phoneNumber\<close> is stored but falsy (the
  empty string, for one), \<open>GET /users/phone/:email\<close> answers 404 with
  \<open>User does not have a phone number\<close>, not 200 with the stored value.
\<close>

theorem getPhone_falsy_phone:
  assumes "findOne ''email'' (JStr email) (usersCollection db) = Some user"
    and "map_of user ''phoneNumber'' = Some v"
    and "\<not> truthy v"
  shows "get_users_phone_email email db =
           \<lparr>status = 404, json = Message ''User does not have a phone number''\<rparr>"
  using assms by (simp add: get_users_phone_email_def truthy_prop_def)

text \<open>An instance of C10: Ann, whose stored phone number is the empty string.\<close>

theorem getPhone_falsy_phone_witness:
  "findOne ''email'' (JStr ''ann@site.io'') (usersCollection site_db) =
     Some [(''_id'', JOid 2), (''name'', JStr ''Ann''), (''email'', JStr ''ann@site.io''),
           (''phoneNumber'', JStr [])]
   \<and> map_of [(''_id'', JOid 2), (''name'', JStr ''Ann''), (''email'', JStr ''ann@site.io''),
             (''phoneNumber'', JStr [])] ''phoneNumber'' = Some (JStr [])
   \<and> \<not> truthy (JStr [])
   \<and> get_users_phone_email ''ann@site.io'' site_db =
       \<lparr>status = 404, json = Message ''User does not have a phone number''\<rparr>"
proof -
  let ?ann = "[(''_id'', JOid 2), (''name'', JStr ''Ann''), (''email'', JStr ''ann@site.io''),
               (''phoneNumber'', JStr [])]"
  have f: "findOne ''email'' (JStr ''ann@site.io'') (usersCollection site_db) = Some ?ann"
    by (simp add: eval_defs)
  have p: "map_of ?ann ''phoneNumber'' = Some (JStr [])" by simp
  have t: "\<not> truthy (JStr [])" by simp
  from f p t getPhone_falsy_phone [OF f p t] show ?thesis by simp
qed

end
